theory Spec2Isabelle
  imports Main
begin

section \<open>Coupon backend: duration parsing, OTP ledger, login, guards, profiles, coupon routes\<close>

text \<open>
  A shallow embedding of the TypeScript sources \<^verbatim>\<open>routes/couponRoutes.ts\<close>,
  \<^verbatim>\<open>utils/otpUtils.ts\<close>, \<^verbatim>\<open>controllers/authController.ts\<close>,
  \<^verbatim>\<open>controllers/UserProfileController.ts\<close>, \<^verbatim>\<open>models/userModel.ts\<close>,
  \<^verbatim>\<open>models/UserProfileModel.ts\<close> and \<^verbatim>\<open>middlewares/authMiddleware.ts\<close>.

  Conventions.
  \<^item> A JavaScript string is a \<open>string\<close>; its characters stand for UTF-16 code units
    below 256. \<open>undefined\<close> and \<open>null\<close> are \<open>None\<close>.
  \<^item> A \<open>Date\<close> is its time value, an \<open>int\<close> of milliseconds since the epoch; the
    clock (\<open>new Date()\<close>, SQL \<open>NOW()\<close>) is a parameter \<open>now\<close>.
  \<^item> A SQL table is the list of its rows, in the order a sequential scan returns them.
  \<^item> \<open>pool.query\<close> can throw. Each call consumes one flag of the list \<open>faults\<close> of
    the store (\<open>True\<close>: this call throws, whatever the reason; no flag left: it does
    not) and, when it does not throw, appends an event to the \<open>events\<close> of the world.
  \<^item> The libraries behind the code (Joi, bcrypt, jsonwebtoken) are parameters, and so is
    the local time zone.
\<close>

subsection \<open>The duration pattern of \<^verbatim>\<open>calculateExpirationDate\<close>\<close>

text \<open>
  \<^verbatim>\<open>/(\d+)hrs?\s*(\d+)min?|(\d+)hrs?|(\d+)min?/i\<close>

  \<open>\d\<close> is an ASCII digit, \<open>\s\<close> is JavaScript white space (of the code units below
  256: tab, line feed, vertical tab, form feed, carriage return, space, no-break
  space), and the flag \<open>i\<close> lets each letter of the pattern match its upper case too.
\<close>

definition isDigit :: "char \<Rightarrow> bool" where
  "isDigit c = (48 \<le> (of_char c :: nat) \<and> (of_char c :: nat) \<le> 57)"

definition isSpace :: "char \<Rightarrow> bool" where
  "isSpace c = ((of_char c :: nat) \<in> {9, 10, 11, 12, 13, 32, 160})"

definition toLower :: "char \<Rightarrow> char" where
  "toLower c = (if 65 \<le> (of_char c :: nat) \<and> (of_char c :: nat) \<le> 90
                then char_of ((of_char c :: nat) + 32) else c)"

text \<open>A literal of the pattern (given in lower case) at the head of the input; the
  rest of the input when it is there.\<close>

fun lit :: "string \<Rightarrow> string \<Rightarrow> string option" where
  "lit [] s = Some s"
| "lit (p # ps) [] = None"
| "lit (p # ps) (c # cs) = (if toLower c = p then lit ps cs else None)"

text \<open>An optional letter, \<open>s?\<close> or \<open>n?\<close>: taken when it is there.\<close>

fun opt :: "char \<Rightarrow> string \<Rightarrow> string" where
  "opt p [] = []"
| "opt p (c # cs) = (if toLower c = p then cs else c # cs)"

text \<open>
  The groups of a match, as \<open>durationMatch[1]\<close> to \<open>durationMatch[4]\<close>: a group that
  did not take part is \<open>undefined\<close>.
\<close>

record groups =
  g1 :: "string option"
  g2 :: "string option"
  g3 :: "string option"
  g4 :: "string option"

text \<open>
  The three alternatives, tried at one start position. Every greedy quantifier of the
  pattern is followed by an item that cannot match what the quantifier takes (a letter
  after \<open>\d+\<close>, a digit after \<open>\s*\<close>, white space or a digit after \<open>s?\<close>), so
  giving back characters never turns a failure into a match, and each alternative is a
  single pass.
\<close>

definition alt1 :: "string \<Rightarrow> groups option" where
  "alt1 s =
     (let d1 = takeWhile isDigit s in
      if d1 = [] then None else
      case lit ''hr'' (dropWhile isDigit s) of
        None \<Rightarrow> None
      | Some r1 \<Rightarrow>
          (let r2 = dropWhile isSpace (opt CHR ''s'' r1);
               d2 = takeWhile isDigit r2 in
           if d2 = [] then None else
           case lit ''mi'' (dropWhile isDigit r2) of
             None \<Rightarrow> None
           | Some r3 \<Rightarrow> Some \<lparr>g1 = Some d1, g2 = Some d2, g3 = None, g4 = None\<rparr>))"

definition alt2 :: "string \<Rightarrow> groups option" where
  "alt2 s =
     (let d = takeWhile isDigit s in
      if d = [] then None else
      case lit ''hr'' (dropWhile isDigit s) of
        None \<Rightarrow> None
      | Some r \<Rightarrow> Some \<lparr>g1 = None, g2 = None, g3 = Some d, g4 = None\<rparr>)"

definition alt3 :: "string \<Rightarrow> groups option" where
  "alt3 s =
     (let d = takeWhile isDigit s in
      if d = [] then None else
      case lit ''mi'' (dropWhile isDigit s) of
        None \<Rightarrow> None
      | Some r \<Rightarrow> Some \<lparr>g1 = None, g2 = None, g3 = None, g4 = Some d\<rparr>)"

definition matchHere :: "string \<Rightarrow> groups option" where
  "matchHere s =
     (case alt1 s of Some m \<Rightarrow> Some m
      | None \<Rightarrow> (case alt2 s of Some m \<Rightarrow> Some m | None \<Rightarrow> alt3 s))"

text \<open>\<^verbatim>\<open>duration.match(...)\<close>: the first start position, from the left, with a match;
  \<open>null\<close> when there is none.\<close>

fun durationMatch :: "string \<Rightarrow> groups option" where
  "durationMatch [] = matchHere []"
| "durationMatch (c # cs) =
     (case matchHere (c # cs) of Some m \<Rightarrow> Some m | None \<Rightarrow> durationMatch cs)"

text \<open>
  \<^verbatim>\<open>parseInt\<close> of a group, which is a non-empty string of ASCII digits: its decimal
  value (the source holds it in a double, which is exact below \<open>2^53\<close>).
\<close>

definition digitVal :: "char \<Rightarrow> int" where
  "digitVal c = int (of_char c) - 48"

definition parseInt :: "string \<Rightarrow> int" where
  "parseInt ds = foldl (\<lambda>acc c. 10 * acc + digitVal c) 0 ds"

text \<open>A string is truthy when it is neither \<open>undefined\<close>/\<open>null\<close> nor empty.\<close>

fun truthy :: "string option \<Rightarrow> bool" where
  "truthy None = False"
| "truthy (Some s) = (s \<noteq> [])"

definition totalMinutes :: "string \<Rightarrow> int" where
  "totalMinutes duration =
     (case durationMatch duration of
        None \<Rightarrow> 0
      | Some m \<Rightarrow>
          if truthy (g1 m) \<and> truthy (g2 m)
            then parseInt (the (g1 m)) * 60 + parseInt (the (g2 m))
          else if truthy (g3 m) then parseInt (the (g3 m)) * 60
          else if truthy (g4 m) then parseInt (the (g4 m))
          else 0)"

definition calculateExpirationDate :: "int \<Rightarrow> string \<Rightarrow> int" where
  "calculateExpirationDate now duration = now + totalMinutes duration * 60000"

text \<open>
  A \<open>Date\<close> holds a time value of at most \<open>8.64e15\<close> milliseconds either side of the
  epoch; \<^verbatim>\<open>new Date(v)\<close> with \<open>v\<close> beyond that is an Invalid Date, which the store
  refuses as a parameter. For a clock \<open>now\<close> that is not before the epoch, the double
  arithmetic of the source is exact on every result within that range and leaves the
  range exactly when the integer result does.
\<close>

definition invalidDate :: "int \<Rightarrow> bool" where
  "invalidDate t = (8640000000000000 < \<bar>t\<bar>)"


text \<open>
  The shapes as the specification words them, for comparison with the pattern: a number
  directly followed by \<open>hr\<close> or \<open>hrs\<close>, then optional white space, a number and
  \<open>min\<close>; a number directly followed by \<open>hr\<close> or \<open>hrs\<close>; a number directly
  followed by \<open>min\<close>; letters in either case, anywhere in the free text.
\<close>

definition startsWith :: "string \<Rightarrow> string \<Rightarrow> bool" where
  "startsWith p s = (case lit p s of None \<Rightarrow> False | Some r \<Rightarrow> True)"

definition specShapeHere :: "string \<Rightarrow> bool" where
  "specShapeHere s =
     (case takeWhile isDigit s of
        [] \<Rightarrow> False
      | d # ds \<Rightarrow> if startsWith ''hr'' (dropWhile isDigit s) then True
                  else startsWith ''min'' (dropWhile isDigit s))"

fun specShape :: "string \<Rightarrow> bool" where
  "specShape [] = False"
| "specShape (c # cs) = (specShapeHere (c # cs) \<or> specShape cs)"

subsection \<open>The store and what surrounds it\<close>

record user =
  u_id :: int
  u_email :: string
  u_phone :: string
  u_password :: string
  u_is_verified :: bool
  u_created_at :: int
  u_updated_at :: int

datatype otp_type = Email | Phone

record otp_code =
  o_user_id :: int
  o_otp :: string
  o_type :: otp_type
  o_expires_at :: int
  o_created_at :: int

record profile =
  p_user_id :: int
  p_email :: string
  p_phone_number :: string
  p_first_name :: string
  p_middle_name :: "string option"
  p_last_name :: string
  p_gender :: string
  p_house_no :: int
  p_city_town_village :: string
  p_district :: string
  p_state :: string
  p_country :: string
  p_profile_picture_url :: "string option"
  p_created_at :: int
  p_updated_at :: int

record coupon =
  c_id :: int
  c_brand_name :: string
  c_coupon_id :: string
  c_bogo :: "string option"
  c_discount :: "string option"
  c_audience :: string
  c_duration :: string
  c_image_url :: "string option"
  c_image_public_id :: "string option"
  c_expires_at :: "int option"
  c_is_expired :: "bool option"
  c_expired_at :: "int option"
  c_created_at :: int
  c_updated_at :: "int option"

text \<open>What the code does to its collaborators, in the order it does it: a statement
  run on a table of the store, or \<^verbatim>\<open>cloudinary.uploader.destroy\<close> called on an
  asset id.\<close>

datatype stmt = SELECT | INSERT | UPDATE | DELETE

datatype event = Sql stmt string | Destroy string

record world =
  users :: "user list"
  otp_codes :: "otp_code list"
  users_profiles :: "profile list"
  coupons :: "coupon list"
  faults :: "bool list"
  cloud_faults :: "bool list"
  events :: "event list"

text \<open>\<open>throws w\<close>: the next \<^verbatim>\<open>pool.query\<close> throws. \<open>consume\<close> uses the flag up;
  \<open>ranQuery\<close> is a query that did not throw, put on the record of events.\<close>

definition throws :: "world \<Rightarrow> bool" where
  "throws w = (case faults w of [] \<Rightarrow> False | f # _ \<Rightarrow> f)"

definition consume :: "world \<Rightarrow> world" where
  "consume w = w\<lparr>faults := tl (faults w)\<rparr>"

definition ranQuery :: "stmt \<Rightarrow> string \<Rightarrow> world \<Rightarrow> world" where
  "ranQuery st table w = w\<lparr>faults := tl (faults w), events := events w @ [Sql st table]\<rparr>"

text \<open>Response bodies are JSON values; a \<open>Date\<close> in a body is kept as its time value,
  and \<open>JMilli n\<close> is the decimal number \<open>n / 1000\<close>.\<close>

datatype json =
  JNull | JBool bool | JNum int | JMilli int | JStr string | JDate int
  | JObj "(string \<times> json) list"

record response =
  status :: nat
  body :: json

definition message :: "string \<Rightarrow> json" where
  "message m = JObj [(''message'', JStr m)]"

text \<open>The value of a key of a JSON object; \<open>None\<close> when the key is not there.\<close>

fun jfield :: "string \<Rightarrow> json \<Rightarrow> json option" where
  "jfield k (JObj kvs) = map_of kvs k"
| "jfield k _ = None"

subsection \<open>\<^verbatim>\<open>utils/otpUtils.ts\<close>\<close>

text \<open>
  \<^verbatim>\<open>expiresAt.setMinutes(expiresAt.getMinutes() + otpExpiryMinutes)\<close> adds the minutes to
  the local time of the clock and turns the result back into a time value.
  \<open>tza t isUTC\<close> is the offset of the local time zone, in milliseconds (\<open>LocalTZA\<close> of
  the language): at the time value \<open>t\<close> when \<open>isUTC\<close>, at the local time \<open>t\<close>
  otherwise. \<open>otpExpiryMinutes\<close> is \<^verbatim>\<open>parseInt(process.env.OTP_EXPIRY || "10")\<close>,
  \<open>None\<close> when that is \<open>NaN\<close>. The result is \<open>None\<close> for an Invalid Date.
\<close>

definition setMinutesPlus :: "(int \<Rightarrow> bool \<Rightarrow> int) \<Rightarrow> int \<Rightarrow> int option \<Rightarrow> int option" where
  "setMinutesPlus tza now otpExpiryMinutes =
     (case otpExpiryMinutes of
        None \<Rightarrow> None
      | Some m \<Rightarrow>
          (let local = now + tza now True + m * 60000;
               u = local - tza local False
           in if invalidDate u then None else Some u))"

text \<open>
  \<^verbatim>\<open>storeOTP\<close> awaits two queries, a \<open>DELETE\<close> and an \<open>INSERT\<close>, with no transaction
  around them: statements of other requests can run between the two. A call in progress
  is an \<open>issuance\<close>: its arguments, the \<open>expiresAt\<close> it computed on entry, and where it
  stands. \<open>Returned b\<close>: the call returned \<open>b\<close>.
\<close>

datatype pc = AtDelete | AtInsert | Returned bool

record issuance =
  s_userId :: int
  s_otp :: string
  s_type :: otp_type
  s_expiresAt :: "int option"
  s_pc :: pc

definition storeOTP_begin ::
  "(int \<Rightarrow> bool \<Rightarrow> int) \<Rightarrow> int option \<Rightarrow> int \<Rightarrow> int \<Rightarrow> string \<Rightarrow> otp_type \<Rightarrow> issuance" where
  "storeOTP_begin tza otpExpiryMinutes now userId otp type =
     \<lparr>s_userId = userId, s_otp = otp, s_type = type,
      s_expiresAt = setMinutesPlus tza now otpExpiryMinutes, s_pc = AtDelete\<rparr>"

text \<open>
  One awaited query of the call, run at the time \<open>now\<close>. A query that throws takes the
  \<^verbatim>\<open>catch\<close> branch, and the call returns \<open>false\<close>: what ran before it stays done. The
  \<open>INSERT\<close> throws, beyond what the fault flag says, on an Invalid Date, on a
  \<open>user_id\<close> that is no id of \<open>users\<close> (the column references \<open>users(id)\<close>) and on
  a code of more than 6 characters (the column is \<open>VARCHAR(6)\<close>).
\<close>

definition storeOTP_step :: "int \<Rightarrow> issuance \<Rightarrow> world \<Rightarrow> issuance \<times> world" where
  "storeOTP_step now c w =
     (case s_pc c of
        AtDelete \<Rightarrow>
          if throws w then (c\<lparr>s_pc := Returned False\<rparr>, consume w)
          else (c\<lparr>s_pc := AtInsert\<rparr>,
                (ranQuery DELETE ''otp_codes'' w)
                  \<lparr>otp_codes := filter (\<lambda>r. \<not> (o_user_id r = s_userId c \<and> o_type r = s_type c))
                                        (otp_codes w)\<rparr>)
      | AtInsert \<Rightarrow>
          (case s_expiresAt c of
             None \<Rightarrow> (c\<lparr>s_pc := Returned False\<rparr>, consume w)
           | Some expiresAt \<Rightarrow>
               if throws w then (c\<lparr>s_pc := Returned False\<rparr>, consume w)
               else if s_userId c \<notin> set (map u_id (users w))
                 then (c\<lparr>s_pc := Returned False\<rparr>, consume w)
               else if length (s_otp c) > 6
                 then (c\<lparr>s_pc := Returned False\<rparr>, consume w)
               else (c\<lparr>s_pc := Returned True\<rparr>,
                     (ranQuery INSERT ''otp_codes'' w)
                       \<lparr>otp_codes := otp_codes w @
                          [\<lparr>o_user_id = s_userId c, o_otp = s_otp c, o_type = s_type c,
                            o_expires_at = expiresAt, o_created_at = now\<rparr>]\<rparr>))
      | Returned b \<Rightarrow> (c, w))"

text \<open>The call when nothing else runs between its two queries: what it returns and the
  world it leaves.\<close>

definition storeOTP ::
  "(int \<Rightarrow> bool \<Rightarrow> int) \<Rightarrow> int option \<Rightarrow> int \<Rightarrow> int \<Rightarrow> string \<Rightarrow> otp_type \<Rightarrow> world
   \<Rightarrow> bool \<times> world" where
  "storeOTP tza otpExpiryMinutes now userId otp type w =
     (case storeOTP_step now (storeOTP_begin tza otpExpiryMinutes now userId otp type) w of
        (c1, w1) \<Rightarrow>
          (case storeOTP_step now c1 w1 of
             (c2, w2) \<Rightarrow> (s_pc c2 = Returned True, w2)))"

text \<open>
  Several calls in progress on one store. A schedule says, step by step, which call runs
  its next query and at what time; a call that has returned, and a number that names no
  call, do nothing.
\<close>

fun run :: "(nat \<times> int) list \<Rightarrow> issuance list \<times> world \<Rightarrow> issuance list \<times> world" where
  "run [] s = s"
| "run ((i, now) # schedule) (cs, w) =
     (if i < length cs
        then (case storeOTP_step now (cs ! i) w of
                (c, w1) \<Rightarrow> run schedule (cs[i := c], w1))
      else run schedule (cs, w))"

definition verifyOTP :: "int \<Rightarrow> int \<Rightarrow> string \<Rightarrow> otp_type \<Rightarrow> world \<Rightarrow> bool \<times> world" where
  "verifyOTP now userId otp type w =
     (if throws w then (False, consume w) else
      let rows = filter (\<lambda>r. o_user_id r = userId \<and> o_otp r = otp \<and> o_type r = type
                              \<and> o_expires_at r > now) (otp_codes w);
          w1 = ranQuery SELECT ''otp_codes'' w in
      if length rows = 0 then (False, w1) else
      if throws w1 then (False, consume w1) else
      let w2 = (ranQuery DELETE ''otp_codes'' w1)
                 \<lparr>otp_codes := filter (\<lambda>r. \<not> (o_user_id r = userId \<and> o_type r = type))
                                       (otp_codes w1)\<rparr> in
      if throws w2 then (False, consume w2) else
      let w3 = (ranQuery UPDATE ''users'' w2)
                 \<lparr>users := map (\<lambda>u. if u_id u = userId
                                      then u\<lparr>u_is_verified := True, u_updated_at := now\<rparr>
                                      else u) (users w2)\<rparr> in
      (True, w3))"

text \<open>The number of ledger rows of a user and a purpose.\<close>

definition otp_rows :: "int \<Rightarrow> otp_type \<Rightarrow> world \<Rightarrow> otp_code list" where
  "otp_rows userId type w =
     filter (\<lambda>r. o_user_id r = userId \<and> o_type r = type) (otp_codes w)"

subsection \<open>\<^verbatim>\<open>models/userModel.ts\<close>\<close>

text \<open>\<^verbatim>\<open>rows.length > 0 ? rows[0] : null\<close>\<close>

fun firstRow :: "'a list \<Rightarrow> 'a option" where
  "firstRow [] = None"
| "firstRow (r # rs) = Some r"

definition findByEmail :: "string \<Rightarrow> world \<Rightarrow> user option \<times> world" where
  "findByEmail email w =
     (if throws w then (None, consume w)
      else (firstRow (filter (\<lambda>u. u_email u = email) (users w)), ranQuery SELECT ''users'' w))"

definition findById :: "int \<Rightarrow> world \<Rightarrow> user option \<times> world" where
  "findById ident w =
     (if throws w then (None, consume w)
      else (firstRow (filter (\<lambda>u. u_id u = ident) (users w)), ranQuery SELECT ''users'' w))"

text \<open>\<open>compare\<close> is \<^verbatim>\<open>bcrypt.compare\<close> on a plain password and a stored hash;
  \<open>None\<close> when it throws, which \<^verbatim>\<open>verifyPassword\<close> turns into \<open>false\<close>.\<close>

definition verifyPassword :: "(string \<Rightarrow> string \<Rightarrow> bool option) \<Rightarrow> string \<Rightarrow> string \<Rightarrow> bool" where
  "verifyPassword compare plainPassword hashedPassword =
     (case compare plainPassword hashedPassword of None \<Rightarrow> False | Some b \<Rightarrow> b)"

subsection \<open>\<^verbatim>\<open>AuthController.login\<close>\<close>

text \<open>
  \<^verbatim>\<open>loginSchema.validate(req.body)\<close> is Joi's: its outcome is the input of the model,
  either the message of the first error or the validated value.
  \<open>sign ident email expiresIn\<close> is \<^verbatim>\<open>jwt.sign({id, email}, secret, {expiresIn})\<close>.
  The \<^verbatim>\<open>catch\<close> of the controller (status 500) has nothing to catch: the model
  methods catch what their queries and bcrypt throw, and signing with a secret that is
  there does not throw. The same holds for the guard and the profile controller below.
\<close>

record login_value =
  useremail :: string
  userpassword :: string
  RememberMe :: "bool option"

datatype 'a validation = Invalid string | Valid 'a

definition user_json :: "user \<Rightarrow> json" where
  "user_json u = JObj [(''id'', JNum (u_id u)), (''email'', JStr (u_email u)),
                       (''phone'', JStr (u_phone u)), (''is_verified'', JBool (u_is_verified u))]"

definition login ::
  "(string \<Rightarrow> string \<Rightarrow> bool option) \<Rightarrow> (int \<Rightarrow> string \<Rightarrow> string \<Rightarrow> string) \<Rightarrow>
   login_value validation \<Rightarrow> world \<Rightarrow> response \<times> world" where
  "login compare sign v w =
     (case v of
        Invalid msg \<Rightarrow> (\<lparr>status = 400, body = message msg\<rparr>, w)
      | Valid val \<Rightarrow>
          (case findByEmail (useremail val) w of
             (None, w1) \<Rightarrow> (\<lparr>status = 401, body = message ''Invalid email or password''\<rparr>, w1)
           | (Some u, w1) \<Rightarrow>
               if \<not> verifyPassword compare (userpassword val) (u_password u)
                 then (\<lparr>status = 401, body = message ''Invalid email or password''\<rparr>, w1)
               else if \<not> u_is_verified u
                 then (\<lparr>status = 203, body = message ''Please verify your account''\<rparr>, w1)
               else
                 (\<lparr>status = 200,
                   body = JObj [(''message'', JStr ''Login successful''),
                                (''user'', user_json u),
                                (''token'', JStr (sign (u_id u) (u_email u)
                                   (if RememberMe val = Some True then ''30d'' else ''1d'')))]\<rparr>,
                  w1)))"

subsection \<open>\<^verbatim>\<open>middlewares/authMiddleware.ts\<close>: \<^verbatim>\<open>checkVerification\<close>\<close>

text \<open>\<open>req.user\<close>, set by \<^verbatim>\<open>verifyToken\<close>. A middleware answers or calls \<open>next()\<close>.\<close>

record identity =
  i_id :: int
  i_email :: string

datatype outcome = Respond response | Next

definition checkVerification :: "identity option \<Rightarrow> world \<Rightarrow> outcome \<times> world" where
  "checkVerification req_user w =
     (case req_user of
        None \<Rightarrow> (Respond \<lparr>status = 401, body = message ''Unauthorized''\<rparr>, w)
      | Some ru \<Rightarrow>
          (case findById (i_id ru) w of
             (None, w1) \<Rightarrow> (Respond \<lparr>status = 404, body = message ''User not found''\<rparr>, w1)
           | (Some u, w1) \<Rightarrow>
               if \<not> u_is_verified u
                 then (Respond \<lparr>status = 403,
                                body = JObj [(''message'', JStr ''Account not verified''),
                                             (''status'', JNum 203)]\<rparr>, w1)
               else (Next, w1)))"

subsection \<open>\<^verbatim>\<open>models/UserProfileModel.ts\<close>\<close>

definition jopt :: "string option \<Rightarrow> json" where
  "jopt x = (case x of None \<Rightarrow> JNull | Some s \<Rightarrow> JStr s)"

text \<open>A column of the profile side of the \<^verbatim>\<open>LEFT JOIN\<close>: \<open>NULL\<close> when the user has no
  profile row.\<close>

definition pcol :: "profile option \<Rightarrow> (profile \<Rightarrow> json) \<Rightarrow> json" where
  "pcol p f = (case p of None \<Rightarrow> JNull | Some r \<Rightarrow> f r)"

text \<open>\<^verbatim>\<open>FROM users u LEFT JOIN users_profiles p ON u.id = p.user_id WHERE u.id = $1\<close>: every
  user row of that id, with each of its profile rows, or once with none.\<close>

definition leftJoin :: "int \<Rightarrow> world \<Rightarrow> (user \<times> profile option) list" where
  "leftJoin userId w =
     concat (map (\<lambda>u. case filter (\<lambda>p. p_user_id p = u_id u) (users_profiles w) of
                         [] \<Rightarrow> [(u, None)]
                       | ps \<Rightarrow> map (\<lambda>p. (u, Some p)) ps)
                 (filter (\<lambda>u. u_id u = userId) (users w)))"

definition completeProfile_json :: "user \<times> profile option \<Rightarrow> json" where
  "completeProfile_json row =
     (case row of (u, p) \<Rightarrow>
        JObj [(''id'', JNum (u_id u)),
              (''email'', JStr (u_email u)),
              (''phone'', JStr (u_phone u)),
              (''isVerified'', JBool (u_is_verified u)),
              (''profile'',
                 JObj [(''firstName'', pcol p (\<lambda>r. JStr (p_first_name r))),
                       (''middleName'', pcol p (\<lambda>r. jopt (p_middle_name r))),
                       (''lastName'', pcol p (\<lambda>r. JStr (p_last_name r))),
                       (''gender'', pcol p (\<lambda>r. JStr (p_gender r))),
                       (''houseNo'', pcol p (\<lambda>r. JNum (p_house_no r))),
                       (''cityTownVillage'', pcol p (\<lambda>r. JStr (p_city_town_village r))),
                       (''district'', pcol p (\<lambda>r. JStr (p_district r))),
                       (''state'', pcol p (\<lambda>r. JStr (p_state r))),
                       (''country'', pcol p (\<lambda>r. JStr (p_country r))),
                       (''profilePictureUrl'', pcol p (\<lambda>r. jopt (p_profile_picture_url r))),
                       (''createdAt'', pcol p (\<lambda>r. JDate (p_created_at r))),
                       (''updatedAt'', pcol p (\<lambda>r. JDate (p_updated_at r)))]),
              (''createdAt'', JDate (u_created_at u))])"

definition getCompleteUserProfile :: "int \<Rightarrow> world \<Rightarrow> json option \<times> world" where
  "getCompleteUserProfile userId w =
     (if throws w then (None, consume w)
      else (case firstRow (leftJoin userId w) of
              None \<Rightarrow> (None, ranQuery SELECT ''users'' w)
            | Some row \<Rightarrow> (Some (completeProfile_json row), ranQuery SELECT ''users'' w)))"

definition Model_updateProfilePicture :: "int \<Rightarrow> int \<Rightarrow> string \<Rightarrow> world \<Rightarrow> bool \<times> world" where
  "Model_updateProfilePicture now userId imageUrl w =
     (if throws w then (False, consume w)
      else (True,
            (ranQuery UPDATE ''users_profiles'' w)
              \<lparr>users_profiles :=
                 map (\<lambda>p. if p_user_id p = userId
                          then p\<lparr>p_profile_picture_url := Some imageUrl, p_updated_at := now\<rparr>
                          else p) (users_profiles w)\<rparr>))"

subsection \<open>\<^verbatim>\<open>controllers/UserProfileController.ts\<close>\<close>

definition getUserProfile :: "identity option \<Rightarrow> world \<Rightarrow> response \<times> world" where
  "getUserProfile req_user w =
     (case req_user of
        None \<Rightarrow> (\<lparr>status = 401, body = message ''Unauthorized''\<rparr>, w)
      | Some ru \<Rightarrow>
          (case getCompleteUserProfile (i_id ru) w of
             (None, w1) \<Rightarrow> (\<lparr>status = 404, body = message ''Profile not found''\<rparr>, w1)
           | (Some completeProfile, w1) \<Rightarrow> (\<lparr>status = 200, body = completeProfile\<rparr>, w1)))"

text \<open>\<open>imageUrl\<close> is \<^verbatim>\<open>req.body.imageUrl\<close>.\<close>

definition updateProfilePicture ::
  "int \<Rightarrow> identity option \<Rightarrow> string option \<Rightarrow> world \<Rightarrow> response \<times> world" where
  "updateProfilePicture now req_user imageUrl w =
     (case req_user of
        None \<Rightarrow> (\<lparr>status = 401, body = message ''Unauthorized''\<rparr>, w)
      | Some ru \<Rightarrow>
          if \<not> truthy imageUrl
            then (\<lparr>status = 400, body = message ''Image URL is required''\<rparr>, w)
          else
            (case Model_updateProfilePicture now (i_id ru) (the imageUrl) w of
               (False, w1) \<Rightarrow>
                 (\<lparr>status = 500, body = message ''Failed to update profile picture''\<rparr>, w1)
             | (True, w1) \<Rightarrow>
                 (case getCompleteUserProfile (i_id ru) w1 of
                    (completeProfile, w2) \<Rightarrow>
                      (\<lparr>status = 200,
                        body = JObj [(''message'', JStr ''Profile picture updated successfully''),
                                     (''profile'', (case completeProfile of None \<Rightarrow> JNull
                                                    | Some j \<Rightarrow> j))]\<rparr>, w2))))"

subsection \<open>\<^verbatim>\<open>routes/couponRoutes.ts\<close>: update and delete\<close>

text \<open>\<^verbatim>\<open>deleteCloudinaryImage\<close> calls \<open>destroy\<close> and swallows what it throws: the call
  is among the events either way, and one flag of \<open>cloud_faults\<close> (\<open>True\<close>: \<open>destroy\<close>
  throws) is used up.\<close>

definition deleteCloudinaryImage :: "string \<Rightarrow> world \<Rightarrow> world" where
  "deleteCloudinaryImage publicId w =
     w\<lparr>cloud_faults := tl (cloud_faults w), events := events w @ [Destroy publicId]\<rparr>"





definition jdate :: "int option \<Rightarrow> json" where
  "jdate x = (case x of None \<Rightarrow> JNull | Some t \<Rightarrow> JDate t)"

definition jbool :: "bool option \<Rightarrow> json" where
  "jbool x = (case x of None \<Rightarrow> JNull | Some b \<Rightarrow> JBool b)"

text \<open>A row as \<^verbatim>\<open>RETURNING *\<close> gives it, with the value to show under \<open>is_expired\<close>.\<close>

definition coupon_fields :: "coupon \<Rightarrow> json \<Rightarrow> (string \<times> json) list" where
  "coupon_fields c shown =
     [(''id'', JNum (c_id c)), (''brand_name'', JStr (c_brand_name c)),
      (''coupon_id'', JStr (c_coupon_id c)), (''bogo'', jopt (c_bogo c)),
      (''discount'', jopt (c_discount c)), (''audience'', JStr (c_audience c)),
      (''duration'', JStr (c_duration c)), (''image_url'', jopt (c_image_url c)),
      (''image_public_id'', jopt (c_image_public_id c)),
      (''expires_at'', jdate (c_expires_at c)), (''is_expired'', shown),
      (''expired_at'', jdate (c_expired_at c)), (''created_at'', JDate (c_created_at c)),
      (''updated_at'', jdate (c_updated_at c))]"


definition error_body :: "string \<Rightarrow> json" where
  "error_body m = JObj [(''error'', JStr m)]"


text \<open>\<^verbatim>\<open>router.delete("/:id", ...)\<close>\<close>

definition deleteCoupon :: "string \<Rightarrow> world \<Rightarrow> response \<times> world" where
  "deleteCoupon couponId w =
     (if throws w
        then (\<lparr>status = 500, body = error_body ''Failed to delete coupon''\<rparr>, consume w)
      else
        let w1 = (ranQuery DELETE ''coupons'' w)
                   \<lparr>coupons := filter (\<lambda>c. c_coupon_id c \<noteq> couponId) (coupons w)\<rparr> in
        case filter (\<lambda>c. c_coupon_id c = couponId) (coupons w) of
          [] \<Rightarrow> (\<lparr>status = 404, body = error_body ''Coupon not found''\<rparr>, w1)
        | deletedCoupon # _ \<Rightarrow>
            let w2 = (if truthy (c_image_public_id deletedCoupon)
                        then deleteCloudinaryImage (the (c_image_public_id deletedCoupon)) w1
                      else w1)
            in (\<lparr>status = 200,
                 body = JObj [(''message'', JStr ''Coupon deleted successfully''),
                              (''coupon'', JObj (coupon_fields deletedCoupon
                                                   (jbool (c_is_expired deletedCoupon))))]\<rparr>,
                w2))"

text \<open>The stored row of a coupon id.\<close>

definition stored :: "string \<Rightarrow> world \<Rightarrow> coupon option" where
  "stored couponId w = firstRow (filter (\<lambda>c. c_coupon_id c = couponId) (coupons w))"

text \<open>\<open>before a b xs\<close>: \<open>a\<close> occurs in \<open>xs\<close>, with no \<open>b\<close> ahead of its first
  occurrence.\<close>

fun before :: "event \<Rightarrow> event \<Rightarrow> event list \<Rightarrow> bool" where
  "before a b [] = False"
| "before a b (x # xs) = (if x = a then True else if x = b then False else before a b xs)"

subsection \<open>A small world to run the code on\<close>

text \<open>
  One unverified user with two outstanding codes and no profile, and one coupon that
  has an image and is already flagged as expired. \<open>ex_compare\<close> stands in for bcrypt
  (the hash of a password is the password) and \<open>ex_sign\<close> for jsonwebtoken (the
  token is the email and the lifetime).
\<close>

definition ex_user :: user where
  "ex_user = \<lparr>u_id = 1, u_email = ''ann@example.org'', u_phone = ''555'', u_password = ''pw1'',
              u_is_verified = False, u_created_at = 0, u_updated_at = 0\<rparr>"

definition ex_otp :: "string \<Rightarrow> otp_code" where
  "ex_otp code = \<lparr>o_user_id = 1, o_otp = code, o_type = Email, o_expires_at = 600000,
                  o_created_at = 0\<rparr>"

definition ex_coupon :: coupon where
  "ex_coupon = \<lparr>c_id = 1, c_brand_name = ''Brand'', c_coupon_id = ''C1'', c_bogo = None,
                c_discount = None, c_audience = ''all'', c_duration = ''1min'',
                c_image_url = Some ''https://img/c1.png'', c_image_public_id = Some ''img1'',
                c_expires_at = Some 60000, c_is_expired = Some True,
                c_expired_at = Some 61000, c_created_at = 0, c_updated_at = None\<rparr>"

definition ex_world :: world where
  "ex_world = \<lparr>users = [ex_user], otp_codes = [ex_otp ''111111'', ex_otp ''222222''],
               users_profiles = [], coupons = [ex_coupon], faults = [], cloud_faults = [True],
               events = []\<rparr>"

text \<open>A zone without offset, and a zone that is one hour ahead of it until the time
  value 7200000, when its clocks go back by an hour.\<close>

definition ex_utc :: "int \<Rightarrow> bool \<Rightarrow> int" where
  "ex_utc t isUTC = 0"

definition ex_tza :: "int \<Rightarrow> bool \<Rightarrow> int" where
  "ex_tza t isUTC =
     (if isUTC then (if t < 7200000 then 3600000 else 0)
      else (if t < 10800000 then 3600000 else 0))"

text \<open>Two issuance calls for the same user and purpose, entered one millisecond
  apart.\<close>

definition ex_calls :: "issuance list" where
  "ex_calls = [storeOTP_begin ex_utc (Some 10) 1000 1 ''333333'' Email,
               storeOTP_begin ex_utc (Some 10) 1001 1 ''444444'' Email]"

definition ex_compare :: "string \<Rightarrow> string \<Rightarrow> bool option" where
  "ex_compare plain hashed = Some (plain = hashed)"

definition ex_sign :: "int \<Rightarrow> string \<Rightarrow> string \<Rightarrow> string" where
  "ex_sign ident email expiresIn = email @ '':'' @ expiresIn"

definition ex_login :: "string \<Rightarrow> string \<Rightarrow> login_value" where
  "ex_login e p = \<lparr>useremail = e, userpassword = p, RememberMe = None\<rparr>"


definition ex_identity :: identity where
  "ex_identity = \<lparr>i_id = 1, i_email = ''ann@example.org''\<rparr>"

section \<open>Properties\<close>

subsection \<open>Duration parsing\<close>

lemmas pattern_defs =
  matchHere_def alt1_def alt2_def alt3_def isDigit_def isSpace_def toLower_def

lemma totalMinutes_2hrs_30min: "totalMinutes ''2hrs 30min'' = 150"
  by (simp add: totalMinutes_def pattern_defs parseInt_def digitVal_def)

lemma totalMinutes_45min: "totalMinutes ''45min'' = 45"
  by (simp add: totalMinutes_def pattern_defs parseInt_def digitVal_def)

lemma totalMinutes_5mi: "totalMinutes ''5mi'' = 5"
  by (simp add: totalMinutes_def pattern_defs parseInt_def digitVal_def)

lemma not_specShape_5mi: "\<not> specShape ''5mi''"
  by (simp add: specShapeHere_def startsWith_def isDigit_def toLower_def)

text \<open>When the pattern finds nothing, nothing is added to the creation time.\<close>

lemma no_match_no_minutes: "durationMatch d = None \<Longrightarrow> calculateExpirationDate T d = T"
  by (simp add: calculateExpirationDate_def totalMinutes_def)

text \<open>Every text with one of the shapes of the specification is matched by the pattern;
  the pattern matches more, since its \<open>min?\<close> makes the \<open>n\<close> optional.\<close>

lemma lit_mi_of_min: "startsWith ''min'' s \<Longrightarrow> startsWith ''mi'' s"
  by (cases s; cases "tl s"; cases "tl (tl s)") (auto simp: startsWith_def split: if_splits)

lemma specShapeHere_matchHere: "specShapeHere s \<Longrightarrow> matchHere s \<noteq> None"
  using lit_mi_of_min [of "dropWhile isDigit s"]
  by (auto simp: specShapeHere_def startsWith_def matchHere_def alt1_def alt2_def alt3_def
      Let_def split: option.splits list.splits if_splits)

lemma specShape_durationMatch: "specShape d \<Longrightarrow> durationMatch d \<noteq> None"
  by (induction d) (auto split: option.splits dest: specShapeHere_matchHere)

text \<open>
  C1. A coupon created at time \<open>T\<close> with the duration \<open>2hrs 30min\<close> expires at \<open>T\<close>
  plus 150 minutes and with \<open>45min\<close> at \<open>T\<close> plus 45 minutes. The third part, that a
  text with none of the three shapes adds nothing, fails: the text \<open>5mi\<close> has none of
  the shapes (no number is followed by \<open>hr\<close>, \<open>hrs\<close> or \<open>min\<close>), and the code adds
  5 minutes.
\<close>

theorem calculateExpirationDate_2hrs30min_45min_5mi:
  "calculateExpirationDate T ''2hrs 30min'' = T + 150 * 60000 \<and>
   calculateExpirationDate T ''45min'' = T + 45 * 60000 \<and>
   \<not> specShape ''5mi'' \<and>
   calculateExpirationDate T ''5mi'' = T + 5 * 60000"
  using not_specShape_5mi
  by (simp only: calculateExpirationDate_def totalMinutes_2hrs_30min totalMinutes_45min
      totalMinutes_5mi simp_thms)

subsection \<open>The OTP ledger\<close>

lemmas query_defs = throws_def consume_def ranQuery_def

text \<open>The expiry as the code computes it: in a zone with a fixed offset it is the clock
  plus the minutes; where the clocks go back by an hour within the minutes, it is an hour
  more.\<close>

lemma setMinutesPlus_fixed_offset:
  "\<not> invalidDate (now + m * 60000) \<Longrightarrow>
   setMinutesPlus (\<lambda>t isUTC. off) now (Some m) = Some (now + m * 60000)"
  by (simp add: setMinutesPlus_def)

lemma setMinutesPlus_clocks_go_back:
  "setMinutesPlus ex_tza 6900000 (Some 10) = Some (6900000 + 70 * 60000)"
  by (simp add: setMinutesPlus_def ex_tza_def invalidDate_def)

text \<open>
  C3, as the code has it. Take an issuance call whose \<open>DELETE\<close> ran (in the world
  \<open>w\<close>, leaving \<open>w1\<close>) and whose \<open>INSERT\<close> ran later (in the world \<open>w1'\<close>, leaving
  \<open>w2\<close>) and which returned \<open>true\<close>. The \<open>DELETE\<close> left no row of the user and the
  purpose. If whatever ran between the two queries left the rows of the user and the
  purpose as the \<open>DELETE\<close> left them, then after the call the ledger holds exactly one row
  for the user and the purpose: the row inserted, with the expiry computed on entry.
\<close>

theorem storeOTP_single_row:
  assumes d: "storeOTP_step t1 (storeOTP_begin tza otpExpiryMinutes t0 userId otp type) w = (c1, w1)"
    and d_ran: "s_pc c1 = AtInsert"
    and between: "otp_rows userId type w1' = otp_rows userId type w1"
    and i: "storeOTP_step t2 c1 w1' = (c2, w2)"
    and completed: "s_pc c2 = Returned True"
  shows "otp_rows userId type w1 = []
       \<and> Some (otp_rows userId type w2)
           = map_option (\<lambda>e. [\<lparr>o_user_id = userId, o_otp = otp, o_type = type,
                                  o_expires_at = e, o_created_at = t2\<rparr>])
               (setMinutesPlus tza t0 otpExpiryMinutes)
       \<and> length (otp_rows userId type w2) \<le> 1
       \<and> events w1 = events w @ [Sql DELETE ''otp_codes'']
       \<and> events w2 = events w1' @ [Sql INSERT ''otp_codes'']"
proof -
  from d d_ran have c1: "c1 = (storeOTP_begin tza otpExpiryMinutes t0 userId otp type)\<lparr>s_pc := AtInsert\<rparr>"
    and w1: "otp_rows userId type w1 = []" "events w1 = events w @ [Sql DELETE ''otp_codes'']"
    by (auto simp: storeOTP_step_def storeOTP_begin_def otp_rows_def ranQuery_def split: if_splits)
  from between w1 have e: "otp_rows userId type w1' = []" by simp
  from i completed obtain x where x: "setMinutesPlus tza t0 otpExpiryMinutes = Some x"
    and w2: "otp_codes w2 = otp_codes w1' @ [\<lparr>o_user_id = userId, o_otp = otp, o_type = type,
                                  o_expires_at = x, o_created_at = t2\<rparr>]"
      "events w2 = events w1' @ [Sql INSERT ''otp_codes'']"
    unfolding c1
    by (auto simp: storeOTP_step_def storeOTP_begin_def ranQuery_def split: if_splits option.splits)
  from e w2(1) have "otp_rows userId type w2 = [\<lparr>o_user_id = userId, o_otp = otp, o_type = type,
                                  o_expires_at = x, o_created_at = t2\<rparr>]"
    by (simp add: otp_rows_def)
  with x w1 w2(2) show ?thesis by simp
qed

text \<open>Witness for C3: the example world holds two codes of user 1 for the purpose
  \<open>email\<close>. A call for that purpose is entered five minutes before the clocks go back;
  between its two queries a call for the purpose \<open>phone\<close> runs its \<open>DELETE\<close>.\<close>

theorem storeOTP_single_row_witness:
  "length (otp_rows 1 Email ex_world) = 2 \<and>
   otp_rows 1 Email
     (snd (storeOTP_step 6901000
            (fst (storeOTP_step 6900000 (storeOTP_begin ex_tza (Some 10) 6900000 1 ''333333'' Email)
                    ex_world))
            (snd (storeOTP_step 6900500 (storeOTP_begin ex_tza (Some 10) 6900400 1 ''444444'' Phone)
                    (snd (storeOTP_step 6900000
                            (storeOTP_begin ex_tza (Some 10) 6900000 1 ''333333'' Email)
                            ex_world))))))
     = [\<lparr>o_user_id = 1, o_otp = ''333333'', o_type = Email, o_expires_at = 11100000,
         o_created_at = 6901000\<rparr>]"
proof -
  let ?a = "storeOTP_begin ex_tza (Some 10) 6900000 1 ''333333'' Email"
  let ?b = "storeOTP_begin ex_tza (Some 10) 6900400 1 ''444444'' Phone"
  let ?c1 = "fst (storeOTP_step 6900000 ?a ex_world)"
  let ?w1 = "snd (storeOTP_step 6900000 ?a ex_world)"
  let ?w1' = "snd (storeOTP_step 6900500 ?b ?w1)"
  let ?c2 = "fst (storeOTP_step 6901000 ?c1 ?w1')"
  let ?w2 = "snd (storeOTP_step 6901000 ?c1 ?w1')"
  have two: "length (otp_rows 1 Email ex_world) = 2"
    by (simp add: otp_rows_def ex_world_def ex_otp_def)
  have h1: "storeOTP_step 6900000 ?a ex_world = (?c1, ?w1)" by simp
  have h2: "s_pc ?c1 = AtInsert"
    by (simp add: storeOTP_step_def storeOTP_begin_def ex_world_def query_defs)
  have h3: "otp_rows 1 Email ?w1' = otp_rows 1 Email ?w1"
    by (simp add: storeOTP_step_def storeOTP_begin_def ex_world_def ex_otp_def query_defs
        otp_rows_def)
  have h4: "storeOTP_step 6901000 ?c1 ?w1' = (?c2, ?w2)" by simp
  have h5: "s_pc ?c2 = Returned True"
    by (simp add: storeOTP_step_def storeOTP_begin_def setMinutesPlus_def ex_tza_def
        invalidDate_def ex_world_def ex_user_def ex_otp_def query_defs)
  have x: "setMinutesPlus ex_tza 6900000 (Some 10) = Some 11100000"
    by (simp add: setMinutesPlus_def ex_tza_def invalidDate_def)
  from storeOTP_single_row [OF h1 h2 h3 h4 h5] two x show ?thesis by simp
qed

text \<open>
  C3 as stated fails: two issuance calls for the same user and purpose whose queries run
  in the order \<open>DELETE\<close>, \<open>DELETE\<close>, \<open>INSERT\<close>, \<open>INSERT\<close> both return \<open>true\<close>,
  and the ledger then holds two rows for the user and the purpose.
\<close>

theorem storeOTP_overlapping_two_rows:
  "map s_pc (fst (run [(0, 1000), (1, 1001), (0, 1002), (1, 1003)] (ex_calls, ex_world)))
     = [Returned True, Returned True]
   \<and> length (otp_rows 1 Email
        (snd (run [(0, 1000), (1, 1001), (0, 1002), (1, 1003)] (ex_calls, ex_world)))) = 2"
  by (simp add: ex_calls_def ex_world_def ex_user_def ex_otp_def storeOTP_begin_def
      storeOTP_step_def setMinutesPlus_def ex_utc_def invalidDate_def query_defs otp_rows_def)

text \<open>The call with nothing between its two queries: when it returns \<open>true\<close> the
  ledger holds the inserted row only, and when its \<open>DELETE\<close> ran it holds at most one
  row, whatever became of the \<open>INSERT\<close>.\<close>

lemma storeOTP_alone:
  assumes "fst (storeOTP tza otpExpiryMinutes now userId otp type w)"
  shows "Some (otp_rows userId type (snd (storeOTP tza otpExpiryMinutes now userId otp type w)))
           = map_option (\<lambda>e. [\<lparr>o_user_id = userId, o_otp = otp, o_type = type,
                                  o_expires_at = e, o_created_at = now\<rparr>])
               (setMinutesPlus tza now otpExpiryMinutes)"
  using assms
  by (auto simp: storeOTP_def storeOTP_step_def storeOTP_begin_def otp_rows_def ranQuery_def
      consume_def split: if_splits option.splits)

lemma storeOTP_at_most_one:
  "\<not> throws w \<Longrightarrow>
   length (otp_rows userId type (snd (storeOTP tza otpExpiryMinutes now userId otp type w))) \<le> 1"
  by (auto simp: storeOTP_def storeOTP_step_def storeOTP_begin_def otp_rows_def ranQuery_def
      consume_def split: if_splits option.splits)

text \<open>
  C4. If \<^verbatim>\<open>verifyOTP\<close> succeeds for a user and a code, the ledger is left with no row
  for the user and the purpose, and a second \<^verbatim>\<open>verifyOTP\<close> for the same user with
  the same code, at any time and with no issuance in between, returns \<open>false\<close>.
\<close>

theorem verifyOTP_consumes:
  assumes "verifyOTP now userId otp type w = (True, w')"
  shows "otp_rows userId type w' = [] \<and> fst (verifyOTP now' userId otp type w') = False"
  using assms
  by (auto simp add: verifyOTP_def otp_rows_def Let_def ranQuery_def consume_def split: if_splits)

text \<open>Witness for C4: the code \<open>111111\<close> of the example world verifies once.\<close>

theorem verifyOTP_consumes_witness:
  "fst (verifyOTP 1000 1 ''111111'' Email ex_world) = True \<and>
   fst (verifyOTP 2000 1 ''111111'' Email (snd (verifyOTP 1000 1 ''111111'' Email ex_world))) = False"
proof -
  have ok: "fst (verifyOTP 1000 1 ''111111'' Email ex_world) = True"
    by (simp add: verifyOTP_def ex_world_def ex_otp_def query_defs Let_def)
  then have "verifyOTP 1000 1 ''111111'' Email ex_world
               = (True, snd (verifyOTP 1000 1 ''111111'' Email ex_world))"
    by (metis prod.collapse)
  from verifyOTP_consumes [OF this, of 2000] ok show ?thesis by simp
qed

subsection \<open>Login\<close>

lemma firstRow_filter_map:
  assumes "\<And>x. P (f x) = P x"
  shows "firstRow (filter P (map f xs)) = map_option f (firstRow (filter P xs))"
  using assms by (induction xs) auto

lemma verifyOTP_users:
  "verifyOTP now userId otp type w = (True, w') \<Longrightarrow>
   users w' = map (\<lambda>u. if u_id u = userId then u\<lparr>u_is_verified := True, u_updated_at := now\<rparr>
                         else u) (users w)"
  by (auto simp add: verifyOTP_def Let_def query_defs split: if_splits)

lemma findByEmail_after_verifyOTP:
  assumes v: "verifyOTP now userId otp type w = (True, w')"
    and f: "firstRow (filter (\<lambda>u. u_email u = e) (users w)) = Some u"
    and i: "u_id u = userId"
  shows "firstRow (filter (\<lambda>u. u_email u = e) (users w'))
           = Some (u\<lparr>u_is_verified := True, u_updated_at := now\<rparr>)"
proof -
  let ?f = "\<lambda>u. if u_id u = userId then u\<lparr>u_is_verified := True, u_updated_at := now\<rparr> else u"
  have "firstRow (filter (\<lambda>u. u_email u = e) (map ?f (users w)))
          = map_option ?f (firstRow (filter (\<lambda>u. u_email u = e) (users w)))"
    by (rule firstRow_filter_map) simp
  with f i verifyOTP_users [OF v] show ?thesis by simp
qed

text \<open>
  C5. A login with the email of a stored user and a password that matches, while the
  user's \<open>is_verified\<close> is false, is answered with status 203 (not the 401 of bad
  credentials) and a body without a token. After any successful \<^verbatim>\<open>verifyOTP\<close> of that
  user the same login is answered with status 200 and a token.
\<close>

theorem login_not_verified:
  assumes "\<not> throws w"
    and "firstRow (filter (\<lambda>u. u_email u = useremail val) (users w)) = Some u"
    and "verifyPassword compare (userpassword val) (u_password u)"
    and "\<not> u_is_verified u"
  shows "status (fst (login compare sign (Valid val) w)) = 203
       \<and> status (fst (login compare sign (Valid val) w)) \<noteq> 401
       \<and> jfield ''token'' (body (fst (login compare sign (Valid val) w))) = None
       \<and> (\<forall>now otp w'. verifyOTP now (u_id u) otp Email w = (True, w') \<and> \<not> throws w' \<longrightarrow>
            status (fst (login compare sign (Valid val) w')) = 200
          \<and> jfield ''token'' (body (fst (login compare sign (Valid val) w')))
              = Some (JStr (sign (u_id u) (u_email u)
                             (if RememberMe val = Some True then ''30d'' else ''1d''))))"
proof -
  have before: "fst (login compare sign (Valid val) w)
                  = \<lparr>status = 203, body = message ''Please verify your account''\<rparr>"
    using assms by (simp add: login_def findByEmail_def)
  have after: "status (fst (login compare sign (Valid val) w')) = 200
          \<and> jfield ''token'' (body (fst (login compare sign (Valid val) w')))
              = Some (JStr (sign (u_id u) (u_email u)
                             (if RememberMe val = Some True then ''30d'' else ''1d'')))"
    if v: "verifyOTP now (u_id u) otp Email w = (True, w')" and t: "\<not> throws w'"
    for now otp w'
  proof -
    have "firstRow (filter (\<lambda>x. u_email x = useremail val) (users w'))
            = Some (u\<lparr>u_is_verified := True, u_updated_at := now\<rparr>)"
      using findByEmail_after_verifyOTP [OF v assms(2)] by simp
    with t assms(3) show ?thesis
      by (simp add: login_def findByEmail_def)
  qed
  from before have b1: "status (fst (login compare sign (Valid val) w)) = 203"
    by simp
  from b1 have b2: "status (fst (login compare sign (Valid val) w)) \<noteq> 401"
    by simp
  from before have b3: "jfield ''token'' (body (fst (login compare sign (Valid val) w))) = None"
    by (simp add: message_def)
  from b1 b2 b3 after show ?thesis by blast
qed

text \<open>Witness for C5: the user of the example world logs in before and after verifying
  the code \<open>111111\<close>.\<close>

theorem login_not_verified_witness:
  "status (fst (login ex_compare ex_sign (Valid (ex_login ''ann@example.org'' ''pw1'')) ex_world)) = 203
   \<and> jfield ''token'' (body (fst (login ex_compare ex_sign
         (Valid (ex_login ''ann@example.org'' ''pw1'')) ex_world))) = None
   \<and> fst (verifyOTP 1000 1 ''111111'' Email ex_world)
   \<and> status (fst (login ex_compare ex_sign (Valid (ex_login ''ann@example.org'' ''pw1''))
         (snd (verifyOTP 1000 1 ''111111'' Email ex_world)))) = 200
   \<and> jfield ''token'' (body (fst (login ex_compare ex_sign
         (Valid (ex_login ''ann@example.org'' ''pw1''))
         (snd (verifyOTP 1000 1 ''111111'' Email ex_world)))))
       = Some (JStr ''ann@example.org:1d'')"
proof -
  let ?val = "ex_login ''ann@example.org'' ''pw1''"
  have h1: "\<not> throws ex_world" by (simp add: throws_def ex_world_def)
  have h2: "firstRow (filter (\<lambda>u. u_email u = useremail ?val) (users ex_world)) = Some ex_user"
    by (simp add: ex_world_def ex_user_def ex_login_def)
  have h3: "verifyPassword ex_compare (userpassword ?val) (u_password ex_user)"
    by (simp add: verifyPassword_def ex_compare_def ex_login_def ex_user_def)
  have h4: "\<not> u_is_verified ex_user" by (simp add: ex_user_def)
  have ok: "fst (verifyOTP 1000 1 ''111111'' Email ex_world)"
    by (simp add: verifyOTP_def ex_world_def ex_otp_def query_defs Let_def)
  then have v: "verifyOTP 1000 (u_id ex_user) ''111111'' Email ex_world
                  = (True, snd (verifyOTP 1000 1 ''111111'' Email ex_world))"
    by (simp add: ex_user_def) (metis prod.collapse)
  have t: "\<not> throws (snd (verifyOTP 1000 1 ''111111'' Email ex_world))"
    by (simp add: verifyOTP_def ex_world_def ex_otp_def query_defs Let_def)
  from login_not_verified [OF h1 h2 h3 h4, of ex_sign] v t ok show ?thesis
    by (simp add: ex_user_def ex_login_def ex_sign_def)
qed

text \<open>
  C6. A login with an email that is not in the credential store and a login with a stored
  email and a password that does not match get the same response: status 401 and the
  message \<open>Invalid email or password\<close>.
\<close>

theorem login_failures_alike:
  assumes "firstRow (filter (\<lambda>u. u_email u = useremail v1) (users w1)) = None"
    and "firstRow (filter (\<lambda>u. u_email u = useremail v2) (users w2)) = Some u"
    and "\<not> verifyPassword compare (userpassword v2) (u_password u)"
  shows "fst (login compare sign (Valid v1) w1) = fst (login compare sign (Valid v2) w2)
       \<and> fst (login compare sign (Valid v1) w1)
           = \<lparr>status = 401, body = message ''Invalid email or password''\<rparr>"
  using assms by (simp add: login_def findByEmail_def)

text \<open>Witness for C6: an unknown email, and the stored email with a wrong password.\<close>

theorem login_failures_alike_witness:
  "fst (login ex_compare ex_sign (Valid (ex_login ''bob@example.org'' ''pw1'')) ex_world)
     = fst (login ex_compare ex_sign (Valid (ex_login ''ann@example.org'' ''wrong'')) ex_world)
   \<and> status (fst (login ex_compare ex_sign (Valid (ex_login ''bob@example.org'' ''pw1'')) ex_world))
       = 401"
proof -
  have h1: "firstRow (filter (\<lambda>u. u_email u = useremail (ex_login ''bob@example.org'' ''pw1''))
               (users ex_world)) = None"
    by (simp add: ex_world_def ex_user_def ex_login_def)
  have h2: "firstRow (filter (\<lambda>u. u_email u = useremail (ex_login ''ann@example.org'' ''wrong''))
               (users ex_world)) = Some ex_user"
    by (simp add: ex_world_def ex_user_def ex_login_def)
  have h3: "\<not> verifyPassword ex_compare (userpassword (ex_login ''ann@example.org'' ''wrong''))
               (u_password ex_user)"
    by (simp add: verifyPassword_def ex_compare_def ex_login_def ex_user_def)
  from login_failures_alike [OF h1 h2 h3, of ex_sign]
  have same: "fst (login ex_compare ex_sign (Valid (ex_login ''bob@example.org'' ''pw1'')) ex_world)
     = fst (login ex_compare ex_sign (Valid (ex_login ''ann@example.org'' ''wrong'')) ex_world)"
    and what: "fst (login ex_compare ex_sign (Valid (ex_login ''bob@example.org'' ''pw1'')) ex_world)
     = \<lparr>status = 401, body = message ''Invalid email or password''\<rparr>"
    by blast+
  have "status (fst (login ex_compare ex_sign (Valid (ex_login ''bob@example.org'' ''pw1''))
          ex_world)) = 401"
    by (simp add: what)
  with same show ?thesis by blast
qed

subsection \<open>The verified-account guard\<close>

text \<open>Whenever the guard finds the user unverified, the HTTP status is 403.\<close>

lemma checkVerification_unverified:
  assumes "\<not> throws w"
    and "firstRow (filter (\<lambda>u. u_id u = i_id ru) (users w)) = Some u"
    and "\<not> u_is_verified u"
  shows "fst (checkVerification (Some ru) w)
           = Respond \<lparr>status = 403,
                      body = JObj [(''message'', JStr ''Account not verified''),
                                   (''status'', JNum 203)]\<rparr>"
  using assms by (simp add: checkVerification_def findById_def)

text \<open>
  C7. For a request whose user is stored with \<open>is_verified\<close> false,
  \<^verbatim>\<open>checkVerification\<close> answers with the HTTP status 403; the 203 that its comment and
  the login path speak of is a field of the body only.
\<close>

theorem checkVerification_unverified_403:
  "fst (checkVerification (Some ex_identity) ex_world)
     = Respond \<lparr>status = 403,
                body = JObj [(''message'', JStr ''Account not verified''),
                             (''status'', JNum 203)]\<rparr>"
  by (simp add: checkVerification_def findById_def ex_identity_def ex_world_def ex_user_def
      query_defs)

subsection \<open>Profiles\<close>

text \<open>Whenever the user row is there, the answer is 200, with or without a profile
  row; 404 needs the user row to be missing or the query to throw.\<close>

lemma getUserProfile_user_row:
  assumes "\<not> throws w"
    and "filter (\<lambda>u. u_id u = i_id ru) (users w) = u # us"
  shows "status (fst (getUserProfile (Some ru) w)) = 200"
  using assms
  by (simp add: getUserProfile_def getCompleteUserProfile_def leftJoin_def
      split: list.splits option.splits)

lemma getUserProfile_404:
  assumes "status (fst (getUserProfile (Some ru) w)) = 404"
  shows "throws w \<or> filter (\<lambda>u. u_id u = i_id ru) (users w) = []"
proof (cases "filter (\<lambda>u. u_id u = i_id ru) (users w)")
  case Nil
  then show ?thesis by simp
next
  case (Cons u us)
  with assms getUserProfile_user_row [of w ru u us] show ?thesis by auto
qed

text \<open>
  C8. For an identity whose user row exists and who has no profile row,
  \<^verbatim>\<open>getUserProfile\<close> answers with status 200 and a projection whose profile fields are
  all \<open>null\<close>, not with 404: the \<^verbatim>\<open>LEFT JOIN\<close> of \<^verbatim>\<open>getCompleteUserProfile\<close> gives a row
  for every user.
\<close>

theorem getUserProfile_without_profile_200:
  "users_profiles ex_world = [] \<and>
   status (fst (getUserProfile (Some ex_identity) ex_world)) = 200 \<and>
   jfield ''profile'' (body (fst (getUserProfile (Some ex_identity) ex_world)))
     = Some (JObj [(''firstName'', JNull), (''middleName'', JNull), (''lastName'', JNull),
                   (''gender'', JNull), (''houseNo'', JNull), (''cityTownVillage'', JNull),
                   (''district'', JNull), (''state'', JNull), (''country'', JNull),
                   (''profilePictureUrl'', JNull), (''createdAt'', JNull),
                   (''updatedAt'', JNull)])"
  by (simp add: getUserProfile_def getCompleteUserProfile_def leftJoin_def
      completeProfile_json_def pcol_def ex_identity_def ex_world_def ex_user_def query_defs)

lemma map_no_match: "filter P xs = [] \<Longrightarrow> map (\<lambda>x. if P x then f x else x) xs = xs"
  by (induction xs) (auto split: if_splits)

lemma firstRow_filter_none: "firstRow (filter P (filter (\<lambda>x. \<not> P x) xs)) = None"
  by (induction xs) auto


lemma firstRow_Some: "firstRow xs = Some x \<Longrightarrow> \<exists>ys. xs = x # ys"
  by (cases xs) auto

text \<open>
  C10. For an identity with no profile row and a non-empty URL, when the \<open>UPDATE\<close> does
  not throw, \<^verbatim>\<open>updateProfilePicture\<close> answers with status 200 and the message
  \<open>Profile picture updated successfully\<close>, and every table is as it was.
\<close>

theorem updateProfilePicture_no_profile:
  assumes "\<not> throws w"
    and "filter (\<lambda>p. p_user_id p = i_id ru) (users_profiles w) = []"
    and "url \<noteq> []"
  shows "status (fst (updateProfilePicture now (Some ru) (Some url) w)) = 200
       \<and> jfield ''message'' (body (fst (updateProfilePicture now (Some ru) (Some url) w)))
           = Some (JStr ''Profile picture updated successfully'')
       \<and> users_profiles (snd (updateProfilePicture now (Some ru) (Some url) w)) = users_profiles w
       \<and> users (snd (updateProfilePicture now (Some ru) (Some url) w)) = users w
       \<and> otp_codes (snd (updateProfilePicture now (Some ru) (Some url) w)) = otp_codes w
       \<and> coupons (snd (updateProfilePicture now (Some ru) (Some url) w)) = coupons w"
proof -
  from assms(1,2) obtain w1 where m: "Model_updateProfilePicture now (i_id ru) url w = (True, w1)"
    and t: "users_profiles w1 = users_profiles w" "users w1 = users w"
           "otp_codes w1 = otp_codes w" "coupons w1 = coupons w"
    by (simp add: Model_updateProfilePicture_def ranQuery_def map_no_match)
  obtain j w2 where g: "getCompleteUserProfile (i_id ru) w1 = (j, w2)"
    by (cases "getCompleteUserProfile (i_id ru) w1")
  then have t2: "users_profiles w2 = users_profiles w1" "users w2 = users w1"
           "otp_codes w2 = otp_codes w1" "coupons w2 = coupons w1"
    by (auto simp: getCompleteUserProfile_def query_defs split: if_splits option.splits)
  from assms(3) m g t t2 show ?thesis
    by (simp add: updateProfilePicture_def)
qed

text \<open>Witness for C10: the user of the example world, who has no profile.\<close>

theorem updateProfilePicture_no_profile_witness:
  "status (fst (updateProfilePicture 5000 (Some ex_identity) (Some ''https://img/a.png'') ex_world))
     = 200
   \<and> users_profiles (snd (updateProfilePicture 5000 (Some ex_identity) (Some ''https://img/a.png'')
        ex_world)) = []"
proof -
  have h1: "\<not> throws ex_world" by (simp add: throws_def ex_world_def)
  have h2: "filter (\<lambda>p. p_user_id p = i_id ex_identity) (users_profiles ex_world) = []"
    by (simp add: ex_world_def)
  have h3: "''https://img/a.png'' \<noteq> []" by simp
  have e: "users_profiles ex_world = []" by (simp add: ex_world_def)
  from updateProfilePicture_no_profile [OF h1 h2 h3, of 5000] e show ?thesis by simp
qed

subsection \<open>Coupon update\<close>





subsection \<open>Coupon delete\<close>

text \<open>
  C9, as the code has it. For every delete of a stored coupon that has an image asset, when
  the \<open>DELETE\<close> does not throw: the row is deleted first, then exactly one asset-delete
  call is made, for that asset; the response is 200 and the row is gone, whether the
  asset-delete throws or not (\<open>cf\<close> is any list of outcomes of the asset store).
\<close>

theorem deleteCoupon_row_then_asset:
  assumes "\<not> throws w"
    and "stored couponId w = Some c"
    and "c_image_public_id c = Some publicId"
    and "publicId \<noteq> []"
  shows "status (fst (deleteCoupon couponId (w\<lparr>cloud_faults := cf\<rparr>))) = 200
       \<and> events (snd (deleteCoupon couponId (w\<lparr>cloud_faults := cf\<rparr>)))
           = events w @ [Sql DELETE ''coupons'', Destroy publicId]
       \<and> coupons (snd (deleteCoupon couponId (w\<lparr>cloud_faults := cf\<rparr>)))
           = filter (\<lambda>c. c_coupon_id c \<noteq> couponId) (coupons w)
       \<and> stored couponId (snd (deleteCoupon couponId (w\<lparr>cloud_faults := cf\<rparr>))) = None"
proof -
  from assms(2) obtain rest where
    "filter (\<lambda>c. c_coupon_id c = couponId) (coupons w) = c # rest"
    by (auto simp: stored_def dest: firstRow_Some)
  with assms(1,3,4) show ?thesis
    by (simp add: deleteCoupon_def stored_def Let_def query_defs deleteCloudinaryImage_def
        firstRow_filter_none)
qed

text \<open>Witness for C9: the coupon of the example world, with an asset-delete that
  throws.\<close>

theorem deleteCoupon_row_then_asset_witness:
  "status (fst (deleteCoupon ''C1'' (ex_world\<lparr>cloud_faults := [True]\<rparr>))) = 200
   \<and> events (snd (deleteCoupon ''C1'' (ex_world\<lparr>cloud_faults := [True]\<rparr>)))
       = [Sql DELETE ''coupons'', Destroy ''img1'']
   \<and> stored ''C1'' (snd (deleteCoupon ''C1'' (ex_world\<lparr>cloud_faults := [True]\<rparr>))) = None"
proof -
  have h1: "\<not> throws ex_world" by (simp add: throws_def ex_world_def)
  have h2: "stored ''C1'' ex_world = Some ex_coupon"
    by (simp add: stored_def ex_world_def ex_coupon_def)
  have h3: "c_image_public_id ex_coupon = Some ''img1''" by (simp add: ex_coupon_def)
  have h4: "''img1'' \<noteq> []" by simp
  have e: "events ex_world = []" by (simp add: ex_world_def)
  from deleteCoupon_row_then_asset [OF h1 h2 h3 h4, of "[True]"] e show ?thesis by simp
qed

text \<open>
  C9 as stated fails: the asset-delete call is not before the deletion of the row, and not
  in one step with it; it comes after.
\<close>

theorem deleteCoupon_asset_not_first:
  "events (snd (deleteCoupon ''C1'' ex_world)) = [Sql DELETE ''coupons'', Destroy ''img1'']
   \<and> \<not> before (Destroy ''img1'') (Sql DELETE ''coupons'') (events (snd (deleteCoupon ''C1'' ex_world)))"
proof -
  have "events (snd (deleteCoupon ''C1'' ex_world)) = [Sql DELETE ''coupons'', Destroy ''img1'']"
    by (simp add: deleteCoupon_def ex_world_def ex_coupon_def Let_def query_defs
        deleteCloudinaryImage_def)
  then show ?thesis by simp
qed

end
